theory Spec2Isabelle
  imports Main
begin

section \<open>Strings\<close>

text \<open>
  A Python \<open>str\<close> is a sequence of Unicode code points, so it is modelled as a list of
  naturals. The status strings of the diagnostic handler start with code points beyond
  ASCII (U+2705, U+274C, U+26A0 U+FE0F), and \<open>str(e)[:50]\<close> counts code points.
  \<open>ascii\<close> embeds an ASCII literal.
\<close>

type_synonym pystr = "nat list"

definition ascii :: "string \<Rightarrow> pystr" where
  "ascii s = map of_char s"

definition check_mark :: pystr where
  "check_mark = [9989]"

definition cross_mark :: pystr where
  "cross_mark = [10060]"

definition warning_sign :: pystr where
  "warning_sign = [9888, 65039]"

section \<open>Data model (the pydantic classes of main.py)\<close>

text \<open>
  Field names carry a prefix per class (\<open>u_\<close>, \<open>b_\<close>, \<open>le_\<close>, \<open>us_\<close>, \<open>da_\<close>),
  because the classes share the names \<open>id\<close>, \<open>name\<close>, \<open>user\<close>, \<open>points\<close> and \<open>level\<close>.
\<close>

record DemoUser =
  u_id :: pystr
  u_name :: pystr
  u_avatar :: "pystr option"
  u_title :: pystr

record DemoBadge =
  b_id :: pystr
  b_name :: pystr
  b_description :: pystr
  b_icon :: pystr
  b_color :: pystr

record DemoLeaderboardEntry =
  le_user :: DemoUser
  le_points :: int
  le_level :: int
  le_rank :: int

record DemoUserSummary =
  us_user :: DemoUser
  us_points :: int
  us_level :: int
  us_streak_days :: int
  us_badges :: "DemoBadge list"
  us_recent_actions :: "pystr list"

text \<open>The \<open>Field(ge=...)\<close> constraints that pydantic checks when an entry is built.\<close>

definition valid_DemoLeaderboardEntry :: "DemoLeaderboardEntry \<Rightarrow> bool" where
  "valid_DemoLeaderboardEntry e = (0 \<le> le_points e \<and> 1 \<le> le_level e \<and> 1 \<le> le_rank e)"

section \<open>The demo dataset\<close>

definition DEMO_USERS :: "DemoUser list" where
  "DEMO_USERS =
    [\<lparr>u_id = ascii ''u_001'', u_name = ascii ''Alex Morgan'', u_avatar = None,
      u_title = ascii ''Sales Captain''\<rparr>,
     \<lparr>u_id = ascii ''u_002'', u_name = ascii ''Jamie Lee'', u_avatar = None,
      u_title = ascii ''Ops Strategist''\<rparr>,
     \<lparr>u_id = ascii ''u_003'', u_name = ascii ''Riley Chen'', u_avatar = None,
      u_title = ascii ''Product Ace''\<rparr>,
     \<lparr>u_id = ascii ''u_004'', u_name = ascii ''Jordan Patel'', u_avatar = None,
      u_title = ascii ''CX Pro''\<rparr>]"

definition DEMO_BADGES :: "DemoBadge list" where
  "DEMO_BADGES =
    [\<lparr>b_id = ascii ''b_hero'', b_name = ascii ''Hero'',
      b_description = ascii ''Top performer of the week'',
      b_icon = ascii ''Trophy'', b_color = ascii ''#F59E0B''\<rparr>,
     \<lparr>b_id = ascii ''b_streak'', b_name = ascii ''Streak'',
      b_description = ascii ''7-day activity streak'',
      b_icon = ascii ''Flame'', b_color = ascii ''#EF4444''\<rparr>,
     \<lparr>b_id = ascii ''b_helper'', b_name = ascii ''Mentor'',
      b_description = ascii ''Helped 5 teammates'',
      b_icon = ascii ''Handshake'', b_color = ascii ''#10B981''\<rparr>]"

definition DEMO_LEADERBOARD :: "DemoLeaderboardEntry list" where
  "DEMO_LEADERBOARD =
    [\<lparr>le_user = DEMO_USERS ! 0, le_points = 18250, le_level = 12, le_rank = 1\<rparr>,
     \<lparr>le_user = DEMO_USERS ! 1, le_points = 16940, le_level = 11, le_rank = 2\<rparr>,
     \<lparr>le_user = DEMO_USERS ! 2, le_points = 15100, le_level = 10, le_rank = 3\<rparr>,
     \<lparr>le_user = DEMO_USERS ! 3, le_points = 13320, le_level = 9, le_rank = 4\<rparr>]"

text \<open>
  A dict literal: the map built by successive updates, so a later key would win as in
  Python.
\<close>

definition DEMO_USER_DETAILS :: "pystr \<rightharpoonup> DemoUserSummary" where
  "DEMO_USER_DETAILS =
    [ascii ''u_001'' \<mapsto>
       \<lparr>us_user = DEMO_USERS ! 0, us_points = 18250, us_level = 12, us_streak_days = 8,
        us_badges = [DEMO_BADGES ! 0, DEMO_BADGES ! 1],
        us_recent_actions =
          [ascii ''Closed enterprise deal (+2,000)'',
           ascii ''Completed onboarding quest (+300)'',
           ascii ''Shared playbook with team (+100)'']\<rparr>,
     ascii ''u_002'' \<mapsto>
       \<lparr>us_user = DEMO_USERS ! 1, us_points = 16940, us_level = 11, us_streak_days = 6,
        us_badges = [DEMO_BADGES ! 1],
        us_recent_actions =
          [ascii ''Optimized ops workflow (+500)'', ascii ''Daily check-in (+20)'']\<rparr>,
     ascii ''u_003'' \<mapsto>
       \<lparr>us_user = DEMO_USERS ! 2, us_points = 15100, us_level = 10, us_streak_days = 4,
        us_badges = [],
        us_recent_actions = [ascii ''Launched feature beta (+1,200)'']\<rparr>,
     ascii ''u_004'' \<mapsto>
       \<lparr>us_user = DEMO_USERS ! 3, us_points = 13320, us_level = 9, us_streak_days = 2,
        us_badges = [DEMO_BADGES ! 2],
        us_recent_actions = [ascii ''Resolved 20+ support tickets (+800)'']\<rparr>]"

text \<open>
  The module-level state the handlers read. It is passed explicitly, so that a handler
  that wrote to it would show in its result.
\<close>

record dataset =
  users :: "DemoUser list"
  badges :: "DemoBadge list"
  leaderboard :: "DemoLeaderboardEntry list"
  user_details :: "pystr \<rightharpoonup> DemoUserSummary"

definition demo_dataset :: dataset where
  "demo_dataset =
    \<lparr>users = DEMO_USERS, badges = DEMO_BADGES, leaderboard = DEMO_LEADERBOARD,
     user_details = DEMO_USER_DETAILS\<rparr>"

section \<open>Lookup handlers\<close>

datatype validation_issue = Missing pystr | WrongType pystr

datatype http_error =
  HTTPException int pystr
  | RequestValidationError "validation_issue list"

fun status_code :: "http_error \<Rightarrow> int" where
  "status_code (HTTPException c d) = c"
| "status_code (RequestValidationError is) = 422"

definition get_leaderboard :: "dataset \<Rightarrow> DemoLeaderboardEntry list" where
  "get_leaderboard d = leaderboard d"

definition get_badges :: "dataset \<Rightarrow> DemoBadge list" where
  "get_badges d = badges d"

definition list_users :: "dataset \<Rightarrow> DemoUser list" where
  "list_users d = users d"

text \<open>
  \<open>summary = _DEMO_USER_DETAILS.get(user_id)\<close>, then \<open>if not summary: raise\<close>. A pydantic
  model defines neither \<open>__bool__\<close> nor \<open>__len__\<close>, so \<open>not summary\<close> holds exactly when
  the lookup gave \<open>None\<close>.
\<close>

definition get_user_summary :: "dataset \<Rightarrow> pystr \<Rightarrow> http_error + DemoUserSummary" where
  "get_user_summary d user_id =
    (case user_details d user_id of
       None \<Rightarrow> Inl (HTTPException 404 (ascii ''User not found in demo dataset''))
     | Some summary \<Rightarrow> Inr summary)"

section \<open>The award endpoint\<close>

text \<open>
  \<open>class DemoAction(BaseModel): action: str; points: int = 0\<close>. The handler receives a
  \<open>DemoAction\<close>; the framework builds it from the JSON body before the handler runs and
  answers 422 itself when that fails.

  A body field is seen through what validation makes of it: the key is absent, its value
  is not accepted for the declared type, or it is accepted as a value of that type.
\<close>

record DemoAction =
  da_action :: pystr
  da_points :: int

datatype 'a body_field = Absent | Rejected | Accepted 'a

record award_body =
  body_action :: "pystr body_field"
  body_points :: "int body_field"

text \<open>\<open>action\<close> has no default, so it is required; \<open>points\<close> defaults to 0.\<close>

definition action_issues :: "pystr body_field \<Rightarrow> validation_issue list" where
  "action_issues f =
    (case f of Absent \<Rightarrow> [Missing (ascii ''action'')]
     | Rejected \<Rightarrow> [WrongType (ascii ''action'')]
     | Accepted a \<Rightarrow> [])"

definition points_issues :: "int body_field \<Rightarrow> validation_issue list" where
  "points_issues f =
    (case f of Absent \<Rightarrow> []
     | Rejected \<Rightarrow> [WrongType (ascii ''points'')]
     | Accepted n \<Rightarrow> [])"

definition validate_DemoAction :: "award_body \<Rightarrow> http_error + DemoAction" where
  "validate_DemoAction b =
    (case (body_action b, body_points b) of
       (Accepted a, Absent) \<Rightarrow> Inr \<lparr>da_action = a, da_points = 0\<rparr>
     | (Accepted a, Accepted n) \<Rightarrow> Inr \<lparr>da_action = a, da_points = n\<rparr>
     | (fa, fp) \<Rightarrow> Inl (RequestValidationError (action_issues fa @ points_issues fp)))"

definition demo_notice :: "(pystr \<times> pystr) list" where
  "demo_notice =
    [(ascii ''mode'', ascii ''demo''),
     (ascii ''message'', ascii ''Read-only demo: no data was changed.'')]"

text \<open>The handler ignores its argument and assigns to nothing.\<close>

definition award_points :: "DemoAction \<Rightarrow> dataset \<Rightarrow> (pystr \<times> pystr) list \<times> dataset" where
  "award_points a d = (demo_notice, d)"

text \<open>POST /api/demo/award: validation of the body, then the handler.\<close>

definition post_award ::
  "award_body \<Rightarrow> dataset \<Rightarrow> (http_error + (pystr \<times> pystr) list) \<times> dataset" where
  "post_award b d =
    (case validate_DemoAction b of
       Inl err \<Rightarrow> (Inl err, d)
     | Inr a \<Rightarrow> (case award_points a d of (r, d') \<Rightarrow> (Inr r, d')))"

section \<open>The diagnostic handler\<close>

text \<open>
  A raised exception, with \<open>str(e)\<close> as payload. \<open>ImportError\<close> stands for that
  class and its subclasses, \<open>OtherException\<close> for every other instance of
  \<open>Exception\<close>, and \<open>NonException\<close> for an exception outside \<open>Exception\<close>
  (\<open>SystemExit\<close>, \<open>KeyboardInterrupt\<close>, \<open>GeneratorExit\<close>), which a clause
  \<open>except Exception\<close> does not catch.
\<close>

datatype exn = ImportError pystr | OtherException pystr | NonException pystr

fun str_of :: "exn \<Rightarrow> pystr" where
  "str_of (ImportError m) = m"
| "str_of (OtherException m) = m"
| "str_of (NonException m) = m"

text \<open>\<open>isinstance(e, ImportError)\<close> and \<open>isinstance(e, Exception)\<close>.\<close>

fun is_ImportError :: "exn \<Rightarrow> bool" where
  "is_ImportError (ImportError m) = True"
| "is_ImportError (OtherException m) = False"
| "is_ImportError (NonException m) = False"

fun is_Exception :: "exn \<Rightarrow> bool" where
  "is_Exception (ImportError m) = True"
| "is_Exception (OtherException m) = True"
| "is_Exception (NonException m) = False"

text \<open>
  Modelled from the spec: the module \<open>database\<close> is not part of the repository. Its
  handle is "a handle object with an optional \<open>name\<close> attribute and a
  \<open>list_collection_names()\<close>-style enumeration operation"; the enumeration gives the
  names or raises.
\<close>

record db_handle =
  name_attr :: "pystr option"
  list_collection_names :: "exn + pystr list"

text \<open>
  What \<open>from database import db\<close> does: it raises, or binds \<open>db\<close> to \<open>None\<close> or to a
  handle.
\<close>

datatype import_outcome = ImportRaises exn | Imported "db_handle option"

record environment =
  database_import :: import_outcome
  DATABASE_URL :: "pystr option"
  DATABASE_NAME :: "pystr option"

record response =
  backend :: pystr
  database :: pystr
  database_url :: "pystr option"
  database_name :: "pystr option"
  connection_status :: pystr
  collections :: "pystr list"

definition initial_response :: response where
  "initial_response =
    \<lparr>backend = check_mark @ ascii '' Running'',
     database = cross_mark @ ascii '' Not Available'',
     database_url = None,
     database_name = None,
     connection_status = ascii ''Not Connected'',
     collections = []\<rparr>"

text \<open>
  A block of statements gives the response as it stands when the block is left, with the
  exception that left it, if any.
\<close>

text \<open>The body of the inner \<open>try\<close>.\<close>

definition enumerate_collections :: "db_handle \<Rightarrow> response \<Rightarrow> exn option \<times> response" where
  "enumerate_collections db r =
    (case list_collection_names db of
       Inl e \<Rightarrow> (Some e, r)
     | Inr cs \<Rightarrow>
         (None, r\<lparr>collections := take 10 cs,
                  database := check_mark @ ascii '' Connected & Working''\<rparr>))"

text \<open>
  The inner \<open>try\<close> with its \<open>except Exception as e\<close>; an exception the clause does
  not match leaves the block.
\<close>

definition inner_try :: "db_handle \<Rightarrow> response \<Rightarrow> exn option \<times> response" where
  "inner_try db r =
    (case enumerate_collections db r of
       (Some e, r') \<Rightarrow>
         (if is_Exception e
          then (None, r'\<lparr>database :=
                  warning_sign @ ascii ''  Connected but Error: '' @ take 50 (str_of e)\<rparr>)
          else (Some e, r'))
     | (None, r') \<Rightarrow> (None, r'))"

text \<open>
  \<open>getattr(db, "name", default)\<close>
\<close>

definition getattr_name :: "db_handle \<Rightarrow> pystr \<Rightarrow> pystr" where
  "getattr_name db dflt = (case name_attr db of None \<Rightarrow> dflt | Some n \<Rightarrow> n)"

text \<open>The body of the outer \<open>try\<close>.\<close>

definition probe :: "import_outcome \<Rightarrow> response \<Rightarrow> exn option \<times> response" where
  "probe imp r =
    (case imp of
       ImportRaises e \<Rightarrow> (Some e, r)
     | Imported (Some db) \<Rightarrow>
         inner_try db
           (r\<lparr>database := check_mark @ ascii '' Available'',
              database_url := Some (check_mark @ ascii '' Configured''),
              database_name := Some (getattr_name db (check_mark @ ascii '' Connected'')),
              connection_status := ascii ''Connected''\<rparr>)
     | Imported None \<Rightarrow>
         (None, r\<lparr>database := warning_sign @ ascii ''  Available but not initialized''\<rparr>))"

text \<open>
  The outer \<open>try\<close> with \<open>except ImportError\<close> and \<open>except Exception as e\<close>, in that
  order; an exception neither clause matches leaves the block.
\<close>

definition outer_try :: "import_outcome \<Rightarrow> response \<Rightarrow> exn option \<times> response" where
  "outer_try imp r =
    (case probe imp r of
       (Some e, r') \<Rightarrow>
         (if is_ImportError e
          then (None, r'\<lparr>database := cross_mark @ ascii '' Database module not found''\<rparr>)
          else if is_Exception e
          then (None, r'\<lparr>database := cross_mark @ ascii '' Error: '' @ take 50 (str_of e)\<rparr>)
          else (Some e, r'))
     | (None, r') \<Rightarrow> (None, r'))"

text \<open>
  \<open>"Set" if os.getenv(V) else "Not Set"\<close>: the test is Python truthiness, so an unset
  variable and a variable set to the empty string both give the second branch.
\<close>

definition env_indicator :: "pystr option \<Rightarrow> pystr" where
  "env_indicator v =
    (if v \<noteq> None \<and> v \<noteq> Some [] then check_mark @ ascii '' Set''
     else cross_mark @ ascii '' Not Set'')"

text \<open>The handler: \<open>Inl\<close> is an exception that leaves it.\<close>

definition test_database :: "environment \<Rightarrow> exn + response" where
  "test_database env =
    (case outer_try (database_import env) initial_response of
       (Some e, r) \<Rightarrow> Inl e
     | (None, r) \<Rightarrow>
         Inr (r\<lparr>database_url := Some (env_indicator (DATABASE_URL env)),
                database_name := Some (env_indicator (DATABASE_NAME env))\<rparr>))"

text \<open>
  The exception that the database module raises in an environment, if any: at the import,
  or at the enumeration of the collection names. These are the two places where
  \<open>test_database\<close> calls into the module.
\<close>

definition probe_raises :: "environment \<Rightarrow> exn option" where
  "probe_raises env =
    (case database_import env of
       ImportRaises e \<Rightarrow> Some e
     | Imported None \<Rightarrow> None
     | Imported (Some db) \<Rightarrow>
         (case list_collection_names db of Inl e \<Rightarrow> Some e | Inr cs \<Rightarrow> None))"

section \<open>Basic facts\<close>

lemma ascii_eq_iff [simp]: "ascii a = ascii b \<longleftrightarrow> a = b"
  unfolding ascii_def by (simp add: inj_of_char)

lemma dom_DEMO_USER_DETAILS:
  "dom DEMO_USER_DETAILS =
     {ascii ''u_001'', ascii ''u_002'', ascii ''u_003'', ascii ''u_004''}"
  by (auto simp: DEMO_USER_DETAILS_def)

lemma DEMO_LEADERBOARD_valid: "list_all valid_DemoLeaderboardEntry DEMO_LEADERBOARD"
  by (simp add: DEMO_LEADERBOARD_def valid_DemoLeaderboardEntry_def)

lemma validate_DemoAction_accepts:
  assumes "body_action b = Accepted a" and "body_points b \<noteq> Rejected"
  shows "validate_DemoAction b =
     Inr \<lparr>da_action = a, da_points = (case body_points b of Accepted n \<Rightarrow> n | _ \<Rightarrow> 0)\<rparr>"
  using assms by (cases "body_points b") (simp_all add: validate_DemoAction_def)

lemma post_award_dataset: "snd (post_award b d) = d"
  by (simp add: post_award_def award_points_def split: sum.splits)

text \<open>
  The response of the diagnostic handler, field by field, when the database module raises
  nothing outside \<open>Exception\<close>.
\<close>

lemma test_database_response:
  assumes "\<forall>e. probe_raises env = Some e \<longrightarrow> is_Exception e"
  shows "test_database env =
    Inr \<lparr>backend = check_mark @ ascii '' Running'',
         database =
           (case database_import env of
              ImportRaises e \<Rightarrow>
                (if is_ImportError e then cross_mark @ ascii '' Database module not found''
                 else cross_mark @ ascii '' Error: '' @ take 50 (str_of e))
            | Imported None \<Rightarrow> warning_sign @ ascii ''  Available but not initialized''
            | Imported (Some db) \<Rightarrow>
                (case list_collection_names db of
                   Inl e \<Rightarrow> warning_sign @ ascii ''  Connected but Error: '' @ take 50 (str_of e)
                 | Inr cs \<Rightarrow> check_mark @ ascii '' Connected & Working'')),
         database_url = Some (env_indicator (DATABASE_URL env)),
         database_name = Some (env_indicator (DATABASE_NAME env)),
         connection_status =
           (case database_import env of
              Imported (Some db) \<Rightarrow> ascii ''Connected''
            | _ \<Rightarrow> ascii ''Not Connected''),
         collections =
           (case database_import env of
              Imported (Some db) \<Rightarrow>
                (case list_collection_names db of Inl e \<Rightarrow> [] | Inr cs \<Rightarrow> take 10 cs)
            | _ \<Rightarrow> [])\<rparr>"
proof (cases "database_import env")
  case (ImportRaises e)
  with assms have "is_Exception e" by (simp add: probe_raises_def)
  with ImportRaises show ?thesis
    by (simp add: test_database_def outer_try_def probe_def initial_response_def)
next
  case (Imported h)
  show ?thesis
  proof (cases h)
    case None
    with Imported show ?thesis
      by (simp add: test_database_def outer_try_def probe_def initial_response_def)
  next
    case (Some db)
    show ?thesis
    proof (cases "list_collection_names db")
      case (Inl e)
      with assms Imported Some have "is_Exception e" by (simp add: probe_raises_def)
      with Imported Some Inl show ?thesis
        by (simp add: test_database_def outer_try_def probe_def inner_try_def
            enumerate_collections_def initial_response_def)
    next
      case (Inr cs)
      with Imported Some show ?thesis
        by (simp add: test_database_def outer_try_def probe_def inner_try_def
            enumerate_collections_def initial_response_def)
    qed
  qed
qed


section \<open>Lookup of a user summary\<close>

text \<open>
  C1. For every user identifier that is a key of the user-summary index, the user-summary
  endpoint returns the summary stored under it; for every identifier that is not a key,
  it fails with status 404 and the detail "User not found in demo dataset".
\<close>

theorem get_user_summary_found_or_404:
  "(\<forall>s. DEMO_USER_DETAILS user_id = Some s \<longrightarrow>
        get_user_summary demo_dataset user_id = Inr s)
   \<and> (user_id \<notin> dom DEMO_USER_DETAILS \<longrightarrow>
        get_user_summary demo_dataset user_id =
          Inl (HTTPException 404 (ascii ''User not found in demo dataset'')))"
  by (auto simp: get_user_summary_def demo_dataset_def split: option.splits)

theorem get_user_summary_found_or_404_witness:
  "map_sum status_code us_streak_days (get_user_summary demo_dataset (ascii ''u_002'')) = Inr 6
   \<and> ascii ''u_999'' \<notin> dom DEMO_USER_DETAILS
   \<and> get_user_summary demo_dataset (ascii ''u_999'') =
       Inl (HTTPException 404 (ascii ''User not found in demo dataset''))"
proof -
  have absent: "ascii ''u_999'' \<notin> dom DEMO_USER_DETAILS"
    by (simp add: dom_DEMO_USER_DETAILS)
  have present: "\<exists>s. DEMO_USER_DETAILS (ascii ''u_002'') = Some s \<and> us_streak_days s = 6"
    by (simp add: DEMO_USER_DETAILS_def)
  from present obtain s where s: "DEMO_USER_DETAILS (ascii ''u_002'') = Some s"
    and days: "us_streak_days s = 6" by blast
  from get_user_summary_found_or_404 [of "ascii ''u_002''"] s
  have "get_user_summary demo_dataset (ascii ''u_002'') = Inr s" by blast
  moreover from get_user_summary_found_or_404 [of "ascii ''u_999''"] absent
  have "get_user_summary demo_dataset (ascii ''u_999'') =
      Inl (HTTPException 404 (ascii ''User not found in demo dataset''))" by blast
  ultimately show ?thesis using absent days by simp
qed

section \<open>Leaderboard and badges\<close>

text \<open>
  C2. The leaderboard endpoint returns the four entries of the dataset in the order they
  were written, unsorted; their ranks are 1, 2, 3, 4, strictly increasing, and their
  points strictly decrease along the list, from 18250 at rank 1 to 13320 at rank 4.
\<close>

theorem get_leaderboard_ranked:
  "get_leaderboard demo_dataset = DEMO_LEADERBOARD
   \<and> length (get_leaderboard demo_dataset) = 4
   \<and> map (\<lambda>e. (le_rank e, le_points e)) (get_leaderboard demo_dataset) =
       [(1, 18250), (2, 16940), (3, 15100), (4, 13320)]
   \<and> sorted_wrt (<) (map le_rank (get_leaderboard demo_dataset))
   \<and> sorted_wrt (>) (map le_points (get_leaderboard demo_dataset))"
  by (simp add: get_leaderboard_def demo_dataset_def DEMO_LEADERBOARD_def)

text \<open>
  C8. The badges endpoint returns exactly three badges; exactly one of them has the id
  "b_hero", and its color is "#F59E0B".
\<close>

theorem get_badges_three_with_hero:
  "length (get_badges demo_dataset) = 3
   \<and> map b_color (filter (\<lambda>b. b_id b = ascii ''b_hero'') (get_badges demo_dataset)) =
       [ascii ''#F59E0B'']"
  by (simp add: get_badges_def demo_dataset_def DEMO_BADGES_def)

section \<open>Consistency of the dataset\<close>

text \<open>
  C7. For every user identifier that is a key of the user-summary index, the
  user-summary endpoint returns a summary, and the user embedded in it is the one user
  of the users endpoint that has this identifier.
\<close>

theorem summary_user_is_listed_user:
  assumes "user_id \<in> dom DEMO_USER_DETAILS"
  shows "\<exists>s. get_user_summary demo_dataset user_id = Inr s
    \<and> filter (\<lambda>u. u_id u = user_id) (list_users demo_dataset) = [us_user s]"
proof -
  from assms consider "user_id = ascii ''u_001''" | "user_id = ascii ''u_002''"
    | "user_id = ascii ''u_003''" | "user_id = ascii ''u_004''"
    by (auto simp: dom_DEMO_USER_DETAILS)
  then show ?thesis
    by cases
      (simp_all add: get_user_summary_def demo_dataset_def list_users_def
        DEMO_USER_DETAILS_def DEMO_USERS_def)
qed

theorem summary_user_is_listed_user_witness:
  "ascii ''u_003'' \<in> dom DEMO_USER_DETAILS
   \<and> map_sum status_code us_user (get_user_summary demo_dataset (ascii ''u_003'')) =
       Inr (DEMO_USERS ! 2)
   \<and> u_name (DEMO_USERS ! 2) = ascii ''Riley Chen''"
proof -
  have key: "ascii ''u_003'' \<in> dom DEMO_USER_DETAILS"
    by (simp add: dom_DEMO_USER_DETAILS)
  from summary_user_is_listed_user [OF key] obtain s
    where s: "get_user_summary demo_dataset (ascii ''u_003'') = Inr s"
      and u: "filter (\<lambda>u. u_id u = ascii ''u_003'') (list_users demo_dataset) = [us_user s]"
    by blast
  have "filter (\<lambda>u. u_id u = ascii ''u_003'') (list_users demo_dataset) = [DEMO_USERS ! 2]"
    by (simp add: list_users_def demo_dataset_def DEMO_USERS_def)
  with u have "us_user s = DEMO_USERS ! 2" by simp
  with s key show ?thesis by (simp add: DEMO_USERS_def)
qed

text \<open>
  C9. The keys of the user-summary index are exactly the identifiers of the users in the
  user collection, and for every key the leaderboard has exactly one entry whose user has
  that identifier, with the points and the level of the summary stored under the key.
\<close>

theorem details_agree_with_users_and_leaderboard:
  "dom DEMO_USER_DETAILS = set (map u_id DEMO_USERS)
   \<and> (\<forall>s. DEMO_USER_DETAILS user_id = Some s \<longrightarrow>
        map (\<lambda>e. (le_points e, le_level e))
          (filter (\<lambda>e. u_id (le_user e) = user_id) DEMO_LEADERBOARD) =
        [(us_points s, us_level s)])"
proof (rule conjI)
  show "dom DEMO_USER_DETAILS = set (map u_id DEMO_USERS)"
    by (simp add: dom_DEMO_USER_DETAILS DEMO_USERS_def)
next
  show "\<forall>s. DEMO_USER_DETAILS user_id = Some s \<longrightarrow>
        map (\<lambda>e. (le_points e, le_level e))
          (filter (\<lambda>e. u_id (le_user e) = user_id) DEMO_LEADERBOARD) =
        [(us_points s, us_level s)]"
    by (auto simp: DEMO_USER_DETAILS_def DEMO_LEADERBOARD_def DEMO_USERS_def
        split: if_splits)
qed

theorem details_agree_with_users_and_leaderboard_witness:
  "map_option (\<lambda>s. (us_points s, us_level s)) (DEMO_USER_DETAILS (ascii ''u_004'')) =
     Some (13320, 9)
   \<and> map (\<lambda>e. (le_points e, le_level e))
       (filter (\<lambda>e. u_id (le_user e) = ascii ''u_004'') DEMO_LEADERBOARD) = [(13320, 9)]"
proof -
  have "\<exists>s. DEMO_USER_DETAILS (ascii ''u_004'') = Some s
      \<and> us_points s = 13320 \<and> us_level s = 9"
    by (simp add: DEMO_USER_DETAILS_def)
  then obtain s where s: "DEMO_USER_DETAILS (ascii ''u_004'') = Some s"
    and p: "us_points s = 13320" and l: "us_level s = 9" by blast
  from details_agree_with_users_and_leaderboard [of "ascii ''u_004''"] s
  have "map (\<lambda>e. (le_points e, le_level e))
      (filter (\<lambda>e. u_id (le_user e) = ascii ''u_004'') DEMO_LEADERBOARD) =
      [(us_points s, us_level s)]" by blast
  with s p l show ?thesis by simp
qed

section \<open>The award endpoint is read-only\<close>

text \<open>
  C3, as stated, fails: a body without \<open>action\<close> does not reach the handler. It is
  answered 422 and no acknowledgment is returned.
\<close>

theorem post_award_missing_action_counterexample:
  "fst (post_award \<lparr>body_action = Absent, body_points = Absent\<rparr> demo_dataset) =
     Inl (RequestValidationError [Missing (ascii ''action'')])
   \<and> fst (post_award \<lparr>body_action = Absent, body_points = Absent\<rparr> demo_dataset) \<noteq>
     Inr demo_notice"
  by (simp add: post_award_def validate_DemoAction_def action_issues_def points_issues_def)

text \<open>
  C3, amended. For every request body that passes validation (\<open>action\<close> accepted as a
  string, \<open>points\<close> absent or accepted as an integer), the award endpoint succeeds and
  returns exactly \<open>{"mode": "demo", "message": "Read-only demo: no data was changed."}\<close>;
  for every body, accepted or not, the dataset after the call is the dataset before it,
  so the users and leaderboard endpoints return what they returned before.
\<close>

theorem post_award_read_only:
  assumes "body_action b = Accepted a" and "body_points b \<noteq> Rejected"
  shows "post_award b d =
      (Inr [(ascii ''mode'', ascii ''demo''),
            (ascii ''message'', ascii ''Read-only demo: no data was changed.'')], d)
    \<and> snd (post_award b' d) = d
    \<and> list_users (snd (post_award b' d)) = list_users d
    \<and> get_leaderboard (snd (post_award b' d)) = get_leaderboard d"
proof -
  have "post_award b d =
      (Inr [(ascii ''mode'', ascii ''demo''),
            (ascii ''message'', ascii ''Read-only demo: no data was changed.'')], d)"
    using validate_DemoAction_accepts [OF assms]
    by (simp add: post_award_def award_points_def demo_notice_def)
  then show ?thesis
    by (simp only: post_award_dataset simp_thms)
qed

theorem post_award_read_only_witness:
  "post_award \<lparr>body_action = Accepted (ascii ''test''), body_points = Accepted 50\<rparr>
      demo_dataset =
     (Inr [(ascii ''mode'', ascii ''demo''),
           (ascii ''message'', ascii ''Read-only demo: no data was changed.'')], demo_dataset)
   \<and> list_users (snd (post_award
        \<lparr>body_action = Accepted (ascii ''test''), body_points = Accepted 50\<rparr> demo_dataset)) =
      DEMO_USERS"
proof -
  let ?b = "\<lparr>body_action = Accepted (ascii ''test''), body_points = Accepted 50\<rparr>"
  have a: "body_action ?b = Accepted (ascii ''test'')" by simp
  have p: "body_points ?b \<noteq> Rejected" by simp
  have u: "list_users demo_dataset = DEMO_USERS"
    by (simp add: list_users_def demo_dataset_def)
  from post_award_read_only [OF a p, of demo_dataset ?b] u show ?thesis by simp
qed

text \<open>
  C10. In the body of the award endpoint \<open>points\<close> is optional and defaults to 0, and
  \<open>action\<close> is required: a body with only a string \<open>action\<close> is accepted, with points 0,
  and gets the acknowledgment that a body with points gets; a body without \<open>action\<close> is
  rejected by validation with status 422, whatever its \<open>points\<close>.
\<close>

theorem DemoAction_points_default_action_required:
  "validate_DemoAction \<lparr>body_action = Accepted a, body_points = Absent\<rparr> =
     Inr \<lparr>da_action = a, da_points = 0\<rparr>
   \<and> fst (post_award \<lparr>body_action = Accepted a, body_points = Absent\<rparr> d) = Inr demo_notice
   \<and> post_award \<lparr>body_action = Accepted a, body_points = Absent\<rparr> d =
     post_award \<lparr>body_action = Accepted a, body_points = Accepted n\<rparr> d
   \<and> validate_DemoAction \<lparr>body_action = Absent, body_points = p\<rparr> =
     Inl (RequestValidationError (Missing (ascii ''action'') # points_issues p))
   \<and> fst (post_award \<lparr>body_action = Absent, body_points = p\<rparr> d) =
     Inl (RequestValidationError (Missing (ascii ''action'') # points_issues p))
   \<and> status_code (RequestValidationError (Missing (ascii ''action'') # points_issues p)) = 422"
  by (simp add: post_award_def validate_DemoAction_def action_issues_def award_points_def
      split: body_field.splits)

section \<open>The diagnostic handler\<close>

text \<open>
  C4. In the diagnostic handler: when the import of the database module raises
  \<open>ImportError\<close>, the database field is "Database module not found"; when the module is
  imported and the handle is \<open>None\<close>, it is "Available but not initialized"; when the
  handle is not \<open>None\<close>, the collections field has at most 10 names, namely the first 10
  (at most) of the enumeration when it succeeds, with the database field "Connected &
  Working", and when the enumeration raises an \<open>Exception\<close>, the database field is
  "Connected but Error: " followed by the first 50 (at most) characters of the error
  message.
\<close>

theorem test_database_probe_status:
  "(database_import env = ImportRaises (ImportError m) \<longrightarrow>
      (\<exists>r. test_database env = Inr r
         \<and> database r = cross_mark @ ascii '' Database module not found''))
   \<and> (database_import env = Imported None \<longrightarrow>
      (\<exists>r. test_database env = Inr r
         \<and> database r = warning_sign @ ascii ''  Available but not initialized''))
   \<and> (database_import env = Imported (Some db) \<longrightarrow>
        (\<forall>cs. list_collection_names db = Inr cs \<longrightarrow>
           (\<exists>r. test_database env = Inr r
              \<and> length (collections r) \<le> 10
              \<and> collections r = take 10 cs
              \<and> database r = check_mark @ ascii '' Connected & Working''))
      \<and> (\<forall>e. list_collection_names db = Inl e \<and> is_Exception e \<longrightarrow>
           (\<exists>r. test_database env = Inr r
              \<and> length (collections r) \<le> 10
              \<and> database r =
                  warning_sign @ ascii ''  Connected but Error: '' @ take 50 (str_of e)
              \<and> length (take 50 (str_of e)) \<le> 50)))"
proof (intro conjI impI allI)
  assume "database_import env = ImportRaises (ImportError m)"
  then show "\<exists>r. test_database env = Inr r
      \<and> database r = cross_mark @ ascii '' Database module not found''"
    by (simp add: test_database_response probe_raises_def)
next
  assume "database_import env = Imported None"
  then show "\<exists>r. test_database env = Inr r
      \<and> database r = warning_sign @ ascii ''  Available but not initialized''"
    by (simp add: test_database_response probe_raises_def)
next
  fix cs
  assume "database_import env = Imported (Some db)" and "list_collection_names db = Inr cs"
  then show "\<exists>r. test_database env = Inr r
      \<and> length (collections r) \<le> 10
      \<and> collections r = take 10 cs
      \<and> database r = check_mark @ ascii '' Connected & Working''"
    by (simp add: test_database_response probe_raises_def)
next
  fix e
  assume "database_import env = Imported (Some db)"
    and "list_collection_names db = Inl e \<and> is_Exception e"
  then show "\<exists>r. test_database env = Inr r
      \<and> length (collections r) \<le> 10
      \<and> database r = warning_sign @ ascii ''  Connected but Error: '' @ take 50 (str_of e)
      \<and> length (take 50 (str_of e)) \<le> 50"
    by (simp add: test_database_response probe_raises_def)
qed

theorem test_database_probe_status_witness:
  "map_sum str_of database
     (test_database \<lparr>database_import = ImportRaises (ImportError (ascii ''No module'')),
        DATABASE_URL = None, DATABASE_NAME = None\<rparr>) =
     Inr (cross_mark @ ascii '' Database module not found'')
   \<and> map_sum str_of database
     (test_database \<lparr>database_import = Imported None,
        DATABASE_URL = None, DATABASE_NAME = None\<rparr>) =
     Inr (warning_sign @ ascii ''  Available but not initialized'')
   \<and> map_sum str_of (\<lambda>r. (database r, collections r))
     (test_database \<lparr>database_import = Imported (Some
          \<lparr>name_attr = Some (ascii ''demo''),
           list_collection_names = Inr (replicate 12 (ascii ''c''))\<rparr>),
        DATABASE_URL = None, DATABASE_NAME = None\<rparr>) =
     Inr (check_mark @ ascii '' Connected & Working'', replicate 10 (ascii ''c''))
   \<and> map_sum str_of database
     (test_database \<lparr>database_import = Imported (Some
          \<lparr>name_attr = None,
           list_collection_names = Inl (OtherException (replicate 60 120))\<rparr>),
        DATABASE_URL = None, DATABASE_NAME = None\<rparr>) =
     Inr (warning_sign @ ascii ''  Connected but Error: '' @ replicate 50 120)"
proof -
  let ?e1 = "\<lparr>database_import = ImportRaises (ImportError (ascii ''No module'')),
        DATABASE_URL = None, DATABASE_NAME = None\<rparr>"
  let ?e2 = "\<lparr>database_import = Imported None,
        DATABASE_URL = None, DATABASE_NAME = None\<rparr>"
  let ?db3 = "\<lparr>name_attr = Some (ascii ''demo''),
           list_collection_names = Inr (replicate 12 (ascii ''c''))\<rparr>"
  let ?e3 = "\<lparr>database_import = Imported (Some ?db3),
        DATABASE_URL = None, DATABASE_NAME = None\<rparr>"
  let ?db4 = "\<lparr>name_attr = None,
           list_collection_names = Inl (OtherException (replicate 60 120))\<rparr>"
  let ?e4 = "\<lparr>database_import = Imported (Some ?db4),
        DATABASE_URL = None, DATABASE_NAME = None\<rparr>"
  have c1: "map_sum str_of database (test_database ?e1) =
      Inr (cross_mark @ ascii '' Database module not found'')"
    using test_database_probe_status [of ?e1 "ascii ''No module''"] by auto
  have c2: "map_sum str_of database (test_database ?e2) =
      Inr (warning_sign @ ascii ''  Available but not initialized'')"
    using test_database_probe_status [of ?e2] by auto
  have c3: "map_sum str_of (\<lambda>r. (database r, collections r)) (test_database ?e3) =
      Inr (check_mark @ ascii '' Connected & Working'', replicate 10 (ascii ''c''))"
    using test_database_probe_status [of ?e3 _ ?db3] by auto
  have c4: "map_sum str_of database (test_database ?e4) =
      Inr (warning_sign @ ascii ''  Connected but Error: '' @ replicate 50 120)"
    using test_database_probe_status [of ?e4 _ ?db4] by auto
  from c1 c2 c3 c4 show ?thesis by blast
qed




text \<open>
  C6, as stated, fails: with \<open>DATABASE_URL\<close> set to the empty string the variable is
  present, and the handler reports "Not Set".
\<close>

theorem test_database_empty_variable_counterexample:
  "DATABASE_URL \<lparr>database_import = ImportRaises (ImportError (ascii ''No module'')),
       DATABASE_URL = Some [], DATABASE_NAME = None\<rparr> \<noteq> None
   \<and> map_sum str_of database_url
       (test_database \<lparr>database_import = ImportRaises (ImportError (ascii ''No module'')),
          DATABASE_URL = Some [], DATABASE_NAME = None\<rparr>) =
       Inr (Some (cross_mark @ ascii '' Not Set''))
   \<and> cross_mark @ ascii '' Not Set'' \<noteq> check_mark @ ascii '' Set''"
  by (simp add: test_database_def outer_try_def probe_def env_indicator_def
      cross_mark_def check_mark_def)

text \<open>
  C6, amended. In the response of the diagnostic handler, \<open>database_url\<close> and
  \<open>database_name\<close> are "Set" when \<open>DATABASE_URL\<close>, respectively \<open>DATABASE_NAME\<close>, is set
  to a non-empty value, and "Not Set" when it is unset or empty, whatever the import of
  the database module did; when the module is absent, the database field is "Database
  module not found" and the two fields are as said. The response exists whenever the
  database module raises nothing outside \<open>Exception\<close>, and every response the handler
  returns has the two fields as said.
\<close>

theorem test_database_env_indicators:
  "((\<forall>x. probe_raises env = Some x \<longrightarrow> is_Exception x) \<longrightarrow>
      (\<exists>r. test_database env = Inr r
         \<and> database_url r =
             Some (if DATABASE_URL env = None \<or> DATABASE_URL env = Some []
                   then cross_mark @ ascii '' Not Set'' else check_mark @ ascii '' Set'')
         \<and> database_name r =
             Some (if DATABASE_NAME env = None \<or> DATABASE_NAME env = Some []
                   then cross_mark @ ascii '' Not Set'' else check_mark @ ascii '' Set'')
         \<and> (database_import env = ImportRaises (ImportError m) \<longrightarrow>
              database r = cross_mark @ ascii '' Database module not found'')))
   \<and> (\<forall>r. test_database env = Inr r \<longrightarrow>
         database_url r =
           Some (if DATABASE_URL env = None \<or> DATABASE_URL env = Some []
                 then cross_mark @ ascii '' Not Set'' else check_mark @ ascii '' Set'')
         \<and> database_name r =
           Some (if DATABASE_NAME env = None \<or> DATABASE_NAME env = Some []
                 then cross_mark @ ascii '' Not Set'' else check_mark @ ascii '' Set''))"
proof (intro conjI impI allI)
  assume "\<forall>x. probe_raises env = Some x \<longrightarrow> is_Exception x"
  from test_database_response [OF this]
  show "\<exists>r. test_database env = Inr r
         \<and> database_url r =
             Some (if DATABASE_URL env = None \<or> DATABASE_URL env = Some []
                   then cross_mark @ ascii '' Not Set'' else check_mark @ ascii '' Set'')
         \<and> database_name r =
             Some (if DATABASE_NAME env = None \<or> DATABASE_NAME env = Some []
                   then cross_mark @ ascii '' Not Set'' else check_mark @ ascii '' Set'')
         \<and> (database_import env = ImportRaises (ImportError m) \<longrightarrow>
              database r = cross_mark @ ascii '' Database module not found'')"
    by (simp add: env_indicator_def)
next
  fix r
  assume r: "test_database env = Inr r"
  then show "database_url r =
           Some (if DATABASE_URL env = None \<or> DATABASE_URL env = Some []
                 then cross_mark @ ascii '' Not Set'' else check_mark @ ascii '' Set'')"
    by (auto simp: test_database_def env_indicator_def split: prod.splits option.splits)
  from r show "database_name r =
           Some (if DATABASE_NAME env = None \<or> DATABASE_NAME env = Some []
                 then cross_mark @ ascii '' Not Set'' else check_mark @ ascii '' Set'')"
    by (auto simp: test_database_def env_indicator_def split: prod.splits option.splits)
qed

theorem test_database_env_indicators_witness:
  "probe_raises \<lparr>database_import = ImportRaises (ImportError (ascii ''No module'')),
        DATABASE_URL = Some (ascii ''mongodb://localhost''), DATABASE_NAME = None\<rparr> =
     Some (ImportError (ascii ''No module''))
   \<and> is_Exception (ImportError (ascii ''No module''))
   \<and> map_sum str_of (\<lambda>r. (database r, database_url r, database_name r))
     (test_database \<lparr>database_import = ImportRaises (ImportError (ascii ''No module'')),
        DATABASE_URL = Some (ascii ''mongodb://localhost''), DATABASE_NAME = None\<rparr>) =
   Inr (cross_mark @ ascii '' Database module not found'',
        Some (check_mark @ ascii '' Set''), Some (cross_mark @ ascii '' Not Set''))"
proof -
  let ?env = "\<lparr>database_import = ImportRaises (ImportError (ascii ''No module'')),
        DATABASE_URL = Some (ascii ''mongodb://localhost''), DATABASE_NAME = None\<rparr>"
  have h: "\<forall>x. probe_raises ?env = Some x \<longrightarrow> is_Exception x"
    by (auto simp: probe_raises_def)
  from test_database_env_indicators [of ?env "ascii ''No module''"] h
  obtain r where "test_database ?env = Inr r"
    and "database r = cross_mark @ ascii '' Database module not found''"
    and "database_url r = Some (check_mark @ ascii '' Set'')"
    and "database_name r = Some (cross_mark @ ascii '' Not Set'')"
    by (auto simp: ascii_def)
  then show ?thesis by (simp add: probe_raises_def)
qed

end
